theory Spec2Isabelle
  imports Complex_Main
begin

section \<open>JavaScript values read from the frontmatter\<close>

text \<open>
  The frontmatter of a note is parsed YAML: its values are \<open>null\<close>, booleans, numbers,
  strings, arrays and plain objects. \<open>undefined\<close> is what a property read yields for a
  property that is not there. A finite number is kept as the rational it denotes (both
  zeros are \<open>Fin 0\<close>); a string is kept as its list of characters, of which only
  emptiness is ever inspected by the plugin.
\<close>

datatype jsnum = NaN | PosInf | NegInf | Fin rat

datatype jsval =
    JUndefined
  | JNull
  | JBool bool
  | JNum jsnum
  | JStr string
  | JArr "jsval list"
  | JObj "(string \<times> jsval) list"

text \<open>
  What a property read on a plain object yields: a value of the object itself, or a
  member inherited from \<open>Object.prototype\<close>, which is a built-in function (with its
  name and its \<open>length\<close>) or, for \<open>__proto__\<close>, the prototype object.
\<close>

datatype propval = Data jsval | BuiltinFunction string nat | ObjectPrototype

text \<open>What a \<open>throw\<close> carries.\<close>

datatype error = TypeError | Error string

text \<open>
  The parts of the runtime and of the \<open>moment\<close> library that the plugin relies on but
  that are not part of the repository: the decimal rendering of a number, the reading of
  a string as a number, the source text of a built-in function, and
  \<open>moment(v).format(fmt)\<close>. The answer of \<open>moment\<close> may depend on the time of the call
  (its first argument here, in milliseconds), and the call may throw.
\<close>

record host =
  num_to_string :: "jsnum \<Rightarrow> string"
  string_to_num :: "string \<Rightarrow> jsnum"
  function_to_string :: "string \<Rightarrow> string"
  moment_format :: "nat \<Rightarrow> propval \<Rightarrow> string option \<Rightarrow> error + string"

text \<open>\<open>ToBoolean\<close>: what \<open>v || ''\<close> and \<open>v ? a : b\<close> test.\<close>

fun truthy :: "jsval \<Rightarrow> bool" where
  "truthy JUndefined = False"
| "truthy JNull = False"
| "truthy (JBool b) = b"
| "truthy (JNum n) = (n \<noteq> NaN \<and> n \<noteq> Fin 0)"
| "truthy (JStr s) = (s \<noteq> [])"
| "truthy (JArr xs) = True"
| "truthy (JObj ps) = True"

fun truthy_read :: "propval \<Rightarrow> bool" where
  "truthy_read (Data v) = truthy v"
| "truthy_read (BuiltinFunction name n) = True"
| "truthy_read ObjectPrototype = True"

text \<open>\<open>Array.prototype.join\<close> on strings that are already computed.\<close>

fun join :: "string \<Rightarrow> string list \<Rightarrow> string" where
  "join sep [] = []"
| "join sep [x] = x"
| "join sep (x # y # ys) = x @ sep @ join sep (y # ys)"

text \<open>Evaluating a list of computations from left to right; the first throw wins.\<close>

fun sequence :: "(error + 'a) list \<Rightarrow> error + 'a list" where
  "sequence [] = Inr []"
| "sequence (r # rs) =
     (case r of
        Inl e \<Rightarrow> Inl e
      | Inr x \<Rightarrow> (case sequence rs of Inl e \<Rightarrow> Inl e | Inr xs \<Rightarrow> Inr (x # xs)))"

text \<open>
  \<open>ToString\<close>. An array is rendered by \<open>Array.prototype.toString\<close>, that is \<open>join(",")\<close>,
  which renders \<open>undefined\<close> and \<open>null\<close> elements as the empty string. A plain object
  is rendered by \<open>OrdinaryToPrimitive\<close>: without an own \<open>toString\<close> property the
  inherited \<open>Object.prototype.toString\<close> answers \<open>[object Object]\<close>; an own
  \<open>toString\<close> property parsed from YAML is not callable, and \<open>valueOf\<close> (own and not
  callable, or inherited and returning the object itself) yields no primitive either, so
  the conversion throws a \<open>TypeError\<close>.
\<close>

fun ToString :: "host \<Rightarrow> jsval \<Rightarrow> error + string" where
  "ToString h JUndefined = Inr ''undefined''"
| "ToString h JNull = Inr ''null''"
| "ToString h (JBool b) = Inr (if b then ''true'' else ''false'')"
| "ToString h (JNum n) = Inr (num_to_string h n)"
| "ToString h (JStr s) = Inr s"
| "ToString h (JArr xs) =
     (case sequence (map (\<lambda>x. if x = JUndefined \<or> x = JNull then Inr [] else ToString h x) xs) of
        Inl e \<Rightarrow> Inl e
      | Inr ss \<Rightarrow> Inr (join '','' ss))"
| "ToString h (JObj ps) =
     (if ''toString'' \<in> set (map fst ps) then Inl TypeError else Inr ''[object Object]'')"

text \<open>
  \<open>ToString\<close> of what a property read yielded: a built-in function is rendered by its
  source text, and \<open>Object.prototype\<close> as \<open>[object Object]\<close>.
\<close>

fun ToString_read :: "host \<Rightarrow> propval \<Rightarrow> error + string" where
  "ToString_read h (Data v) = ToString h v"
| "ToString_read h (BuiltinFunction name n) = Inr (function_to_string h name)"
| "ToString_read h ObjectPrototype = Inr ''[object Object]''"

text \<open>
  \<open>Array.prototype.join(sep)\<close> on the array that \<open>calcDisplayText\<close> builds: each
  element is converted with \<open>ToString\<close> (\<open>undefined\<close> and \<open>null\<close> give the empty string).
\<close>

definition Array_join :: "host \<Rightarrow> string \<Rightarrow> propval list \<Rightarrow> error + string" where
  "Array_join h sep xs =
     (case sequence (map (\<lambda>x. if x = Data JUndefined \<or> x = Data JNull then Inr []
                               else ToString_read h x) xs) of
        Inl e \<Rightarrow> Inl e
      | Inr ss \<Rightarrow> Inr (join sep ss))"

text \<open>
  The property read \<open>v.length\<close>: a string and an array have their length, a plain
  object has it only as an own property, a number and a boolean have none, and reading
  a property of \<open>undefined\<close> or \<open>null\<close> throws.
\<close>

fun get_length :: "jsval \<Rightarrow> error + jsval" where
  "get_length JUndefined = Inl TypeError"
| "get_length JNull = Inl TypeError"
| "get_length (JBool b) = Inr JUndefined"
| "get_length (JNum n) = Inr JUndefined"
| "get_length (JStr s) = Inr (JNum (Fin (of_nat (length s))))"
| "get_length (JArr xs) = Inr (JNum (Fin (of_nat (length xs))))"
| "get_length (JObj ps) = Inr (case map_of ps ''length'' of None \<Rightarrow> JUndefined | Some v \<Rightarrow> v)"

text \<open>
  \<open>ToPrimitive\<close> with hint number, as the comparison \<open>v > 0\<close> applies it: for an array
  and for a plain object \<open>valueOf\<close> gives no primitive and \<open>toString\<close> is tried next.
\<close>

fun ToPrimitive :: "host \<Rightarrow> jsval \<Rightarrow> error + jsval" where
  "ToPrimitive h (JArr xs) =
     (case ToString h (JArr xs) of Inl e \<Rightarrow> Inl e | Inr s \<Rightarrow> Inr (JStr s))"
| "ToPrimitive h (JObj ps) =
     (case ToString h (JObj ps) of Inl e \<Rightarrow> Inl e | Inr s \<Rightarrow> Inr (JStr s))"
| "ToPrimitive h v = Inr v"

text \<open>\<open>ToNumber\<close> of a primitive.\<close>

fun ToNumber :: "host \<Rightarrow> jsval \<Rightarrow> jsnum" where
  "ToNumber h JUndefined = NaN"
| "ToNumber h JNull = Fin 0"
| "ToNumber h (JBool b) = Fin (if b then 1 else 0)"
| "ToNumber h (JNum n) = n"
| "ToNumber h (JStr s) = string_to_num h s"
| "ToNumber h v = NaN"

fun num_pos :: "jsnum \<Rightarrow> bool" where
  "num_pos NaN = False"
| "num_pos PosInf = True"
| "num_pos NegInf = False"
| "num_pos (Fin q) = (0 < q)"

text \<open>The comparison \<open>v > 0\<close>.\<close>

definition gt_zero :: "host \<Rightarrow> jsval \<Rightarrow> error + bool" where
  "gt_zero h v =
     (case ToPrimitive h v of Inl e \<Rightarrow> Inl e | Inr p \<Rightarrow> Inr (num_pos (ToNumber h p)))"

text \<open>\<open>Array.prototype.filter\<close> with a callback that may throw.\<close>

fun filter_js :: "('a \<Rightarrow> error + bool) \<Rightarrow> 'a list \<Rightarrow> error + 'a list" where
  "filter_js p [] = Inr []"
| "filter_js p (x # xs) =
     (case p x of
        Inl e \<Rightarrow> Inl e
      | Inr b \<Rightarrow>
          (case filter_js p xs of
             Inl e \<Rightarrow> Inl e
           | Inr ys \<Rightarrow> Inr (if b then x # ys else ys)))"

section \<open>Settings\<close>

text \<open>
  \<open>FrontmatterType\<close> is a string enum; a settings file read from disk can hold any
  other string in the \<open>type\<close> field.
\<close>

definition FrontmatterType_Raw :: string where
  "FrontmatterType_Raw = ''raw''"

definition FrontmatterType_Date :: string where
  "FrontmatterType_Date = ''date''"

record ListItem =
  key :: string
  type :: string
  format :: "string option"

record PluginSettings =
  list :: "ListItem list"
  separator :: string

definition DEFAULT_SETTINGS :: PluginSettings where
  "DEFAULT_SETTINGS =
     \<lparr>list = [\<lparr>key = [], type = FrontmatterType_Raw, format = None\<rparr>], separator = ''|''\<rparr>"

section \<open>The label compiler\<close>

text \<open>
  A frontmatter object is a plain object: the map gives its own properties, and a
  property read \<open>frontmatter[key]\<close> for a key that is not its own falls through to
  \<open>Object.prototype\<close>, whose members are built-in functions with these lengths.
\<close>

type_synonym FrontMatterCache = "string \<Rightarrow> jsval option"

definition Object_prototype :: "string \<Rightarrow> propval option" where
  "Object_prototype =
     map_of
       [(''constructor'', BuiltinFunction ''Object'' 1),
        (''__defineGetter__'', BuiltinFunction ''__defineGetter__'' 2),
        (''__defineSetter__'', BuiltinFunction ''__defineSetter__'' 2),
        (''hasOwnProperty'', BuiltinFunction ''hasOwnProperty'' 1),
        (''__lookupGetter__'', BuiltinFunction ''__lookupGetter__'' 1),
        (''__lookupSetter__'', BuiltinFunction ''__lookupSetter__'' 1),
        (''isPrototypeOf'', BuiltinFunction ''isPrototypeOf'' 1),
        (''propertyIsEnumerable'', BuiltinFunction ''propertyIsEnumerable'' 1),
        (''toString'', BuiltinFunction ''toString'' 0),
        (''valueOf'', BuiltinFunction ''valueOf'' 0),
        (''toLocaleString'', BuiltinFunction ''toLocaleString'' 0),
        (''__proto__'', ObjectPrototype)]"

definition lookup :: "FrontMatterCache \<Rightarrow> string \<Rightarrow> propval" where
  "lookup frontmatter k =
     (case frontmatter k of
        Some v \<Rightarrow> Data v
      | None \<Rightarrow> (case Object_prototype k of Some m \<Rightarrow> m | None \<Rightarrow> Data JUndefined))"

text \<open>
  The callback of \<open>map\<close> in \<open>calcDisplayText\<close>: the \<open>switch\<close> on the type. It runs at
  the time \<open>now\<close>, and throws what \<open>moment\<close> throws.
\<close>

definition extractor_output :: "host \<Rightarrow> nat \<Rightarrow> FrontMatterCache \<Rightarrow> ListItem \<Rightarrow> error + propval" where
  "extractor_output h now frontmatter item =
     (if type item = FrontmatterType_Raw then
        (if truthy_read (lookup frontmatter (key item))
         then Inr (lookup frontmatter (key item))
         else Inr (Data (JStr [])))
      else if type item = FrontmatterType_Date then
        (if truthy_read (lookup frontmatter (key item))
         then (case moment_format h now (lookup frontmatter (key item)) (format item) of
                 Inl e \<Rightarrow> Inl e
               | Inr s \<Rightarrow> Inr (Data (JStr s)))
         else Inr (Data (JStr [])))
      else Inr (Data (JStr [])))"

text \<open>
  The callback of \<open>filter\<close>: \<open>i => i.length > 0\<close>. The \<open>length\<close> of a function is
  the number of its parameters; \<open>Object.prototype\<close> has none.
\<close>

definition length_gt_zero :: "host \<Rightarrow> propval \<Rightarrow> error + bool" where
  "length_gt_zero h i =
     (case i of
        Data v \<Rightarrow> (case get_length v of Inl e \<Rightarrow> Inl e | Inr n \<Rightarrow> gt_zero h n)
      | BuiltinFunction name n \<Rightarrow> Inr (0 < n)
      | ObjectPrototype \<Rightarrow> Inr False)"

text \<open>
  \<open>calcDisplayText\<close>, called at the time \<open>now\<close>: \<open>map\<close> runs the callback on every
  item, then \<open>filter\<close> tests every output, then \<open>join\<close> converts what is left.
\<close>

definition calcDisplayText :: "host \<Rightarrow> nat \<Rightarrow> PluginSettings \<Rightarrow> FrontMatterCache option \<Rightarrow> error + string" where
  "calcDisplayText h now settings frontmatter =
     (case frontmatter of
        None \<Rightarrow> Inr []
      | Some fm \<Rightarrow>
          (case sequence (map (extractor_output h now fm) (list settings)) of
             Inl e \<Rightarrow> Inl e
           | Inr outputs \<Rightarrow>
               (case filter_js (length_gt_zero h) outputs of
                  Inl e \<Rightarrow> Inl e
                | Inr kept \<Rightarrow> Array_join h ('' '' @ separator settings @ '' '') kept)))"

section \<open>The display synchronizer\<close>

datatype TAbstractFile = TFile (path: string) | TFolder (path: string)

text \<open>An item of the file explorer: the file it shows and (the identity of) its element.\<close>

record FileItem =
  file' :: TAbstractFile
  selfEl :: nat

text \<open>
  A view cast to \<open>FileExplorer\<close>: \<open>fileItems\<close> is \<open>undefined\<close> on a view that is not
  the file explorer. The object \<open>fileItems\<close> is kept as the list of its own properties
  in the order in which \<open>for ... in\<close> enumerates them.
\<close>

record FileExplorer =
  fileItems :: "(string \<times> FileItem) list option"

record WorkspaceLeaf =
  view :: "FileExplorer option"

record CachedMetadata =
  frontmatter :: "FrontMatterCache option"

text \<open>
  What the plugin does to its host, in the order in which it does it. The first event is
  not an effect: it records that \<open>updateFileExplorer\<close> was entered.
\<close>

datatype event =
    UpdateFileExplorerCalled
  | SetAttribute nat string string
  | SaveData PluginSettings
  | ConsoleError error
  | SetTimeout nat

text \<open>
  The plugin object together with the part of the host it reads and writes:
  \<open>metadataCache\<close> answers \<open>getFileCache\<close> for a path (\<open>None\<close> is \<open>null\<close>), and
  \<open>attributes\<close> holds the attributes set on the elements.
\<close>

record ErikaPlugin =
  settings :: PluginSettings
  fileExplorer :: "FileExplorer option"
  metadataCache :: "string \<Rightarrow> CachedMetadata option"
  attributes :: "nat \<times> string \<Rightarrow> string option"
  effects :: "event list"

text \<open>
  A method runs at the time \<open>now\<close> at which the host calls it; it returns the exception
  it threw, if any, and the state it left behind.
\<close>

definition setAttribute :: "nat \<Rightarrow> string \<Rightarrow> string \<Rightarrow> ErikaPlugin \<Rightarrow> ErikaPlugin" where
  "setAttribute el name v s =
     s\<lparr>attributes := (attributes s)((el, name) \<mapsto> v),
       effects := effects s @ [SetAttribute el name v]\<rparr>"

text \<open>
  \<open>updateFileDisplay\<close>. When \<open>file.path\<close> is not a property of \<open>fileItems\<close> the
  destructuring of \<open>undefined\<close> throws. When it names a member of \<open>Object.prototype\<close>
  the destructuring gives \<open>selfEl = undefined\<close>: the label is still computed, and then
  \<open>selfEl.setAttribute\<close> throws.
\<close>

definition updateFileDisplay :: "host \<Rightarrow> nat \<Rightarrow> TAbstractFile \<Rightarrow> ErikaPlugin \<Rightarrow> error option \<times> ErikaPlugin" where
  "updateFileDisplay h now f s =
     (case fileExplorer s of
        None \<Rightarrow> (None, s)
      | Some fe \<Rightarrow>
          (case fileItems fe of
             None \<Rightarrow> (Some TypeError, s)
           | Some items \<Rightarrow>
               (case map_of items (path f) of
                  None \<Rightarrow>
                    (case Object_prototype (path f) of
                       None \<Rightarrow> (Some TypeError, s)
                     | Some m \<Rightarrow>
                         (case calcDisplayText h now (settings s)
                                 (case metadataCache s (path f) of
                                    None \<Rightarrow> None
                                  | Some c \<Rightarrow> frontmatter c) of
                            Inl e \<Rightarrow> (Some e, s)
                          | Inr label \<Rightarrow> (Some TypeError, s)))
                | Some item \<Rightarrow>
                    (case calcDisplayText h now (settings s)
                            (case metadataCache s (path f) of
                               None \<Rightarrow> None
                             | Some c \<Rightarrow> frontmatter c) of
                       Inl e \<Rightarrow> (Some e, s)
                     | Inr label \<Rightarrow>
                         (None, setAttribute (selfEl item) ''data-erika-value'' label s)))))"

text \<open>The body of \<open>for (const path in fileItems)\<close>, from the given property on.\<close>

fun for_in_fileItems :: "host \<Rightarrow> nat \<Rightarrow> (string \<times> FileItem) list \<Rightarrow> ErikaPlugin \<Rightarrow> error option \<times> ErikaPlugin" where
  "for_in_fileItems h now [] s = (None, s)"
| "for_in_fileItems h now (p # rest) s =
     (case file' (snd p) of
        TFile x \<Rightarrow>
          (case updateFileDisplay h now (file' (snd p)) s of
             (None, s') \<Rightarrow> for_in_fileItems h now rest s'
           | (Some e, s') \<Rightarrow> (Some e, s'))
      | TFolder x \<Rightarrow> for_in_fileItems h now rest s)"

definition updateFileExplorer :: "host \<Rightarrow> nat \<Rightarrow> ErikaPlugin \<Rightarrow> error option \<times> ErikaPlugin" where
  "updateFileExplorer h now s0 =
     (let s = s0\<lparr>effects := effects s0 @ [UpdateFileExplorerCalled]\<rparr> in
      case fileExplorer s of
        None \<Rightarrow> (None, s)
      | Some fe \<Rightarrow>
          (case fileItems fe of
             None \<Rightarrow> (None, s)
           | Some items \<Rightarrow> for_in_fileItems h now items s))"

text \<open>\<open>saveData\<close> is the host's; it is recorded as an effect.\<close>

definition saveData :: "PluginSettings \<Rightarrow> ErikaPlugin \<Rightarrow> ErikaPlugin" where
  "saveData d s = s\<lparr>effects := effects s @ [SaveData d]\<rparr>"

definition saveAndUpdateDisplay :: "host \<Rightarrow> nat \<Rightarrow> ErikaPlugin \<Rightarrow> error option \<times> ErikaPlugin" where
  "saveAndUpdateDisplay h now s =
     (case updateFileExplorer h now s of
        (Some e, s') \<Rightarrow> (Some e, s')
      | (None, s') \<Rightarrow> (None, saveData (settings s') s'))"

text \<open>
  \<open>getFileExplorerLeaf\<close> on the leaves that \<open>iterateAllLeaves\<close> enumerates: the
  callback keeps the first leaf whose view has \<open>fileItems\<close>.
\<close>

definition getFileExplorerLeaf :: "WorkspaceLeaf list \<Rightarrow> error + WorkspaceLeaf" where
  "getFileExplorerLeaf leaves =
     (case fold (\<lambda>leaf foundLeaf.
                   if foundLeaf \<noteq> None then foundLeaf
                   else (case view leaf of
                           None \<Rightarrow> None
                         | Some v \<Rightarrow> (case fileItems v of None \<Rightarrow> None | Some items \<Rightarrow> Some leaf)))
                leaves None of
        None \<Rightarrow> Inl (Error ''Could not find file explorer leaf'')
      | Some leaf \<Rightarrow> Inr leaf)"

text \<open>
  The \<open>try\<close> block of \<open>init\<close>, run at the time \<open>now\<close> on the leaves the workspace has
  at that moment.
\<close>

definition init_try :: "host \<Rightarrow> nat \<Rightarrow> WorkspaceLeaf list \<Rightarrow> ErikaPlugin \<Rightarrow> error option \<times> ErikaPlugin" where
  "init_try h now leaves s =
     (case getFileExplorerLeaf leaves of
        Inl e \<Rightarrow> (Some e, s)
      | Inr leaf \<Rightarrow> updateFileExplorer h now (s\<lparr>fileExplorer := view leaf\<rparr>))"

text \<open>
  \<open>init\<close> registers a callback that the host runs once the layout is ready; in its
  \<open>catch\<close> block a timer re-enters \<open>init\<close> one second later, when the workspace may
  have other leaves. The list gives, for each run of the callback, its time and the
  leaves of the workspace then, as far as the environment is described. \<open>Done\<close> says
  that a run ended without scheduling another one; \<open>Pending\<close> says that a run of the
  callback is outstanding when the description of the environment ends.
\<close>

datatype init_outcome = Done | Pending

fun init :: "host \<Rightarrow> (nat \<times> WorkspaceLeaf list) list \<Rightarrow> ErikaPlugin \<Rightarrow> init_outcome \<times> ErikaPlugin" where
  "init h [] s = (Pending, s)"
| "init h (run # later) s =
     (case init_try h (fst run) (snd run) s of
        (None, s') \<Rightarrow> (Done, s')
      | (Some e, s') \<Rightarrow>
          init h later (s'\<lparr>effects := effects s' @ [ConsoleError e, SetTimeout 1000]\<rparr>))"

section \<open>Auxiliary notions for the statements\<close>

text \<open>
  A value is stringable when its conversion to a string does not throw: no object with
  an own property \<open>toString\<close> is reached through the nesting of arrays.
\<close>

fun stringable :: "jsval \<Rightarrow> bool" where
  "stringable (JArr xs) = list_all stringable xs"
| "stringable (JObj ps) = (''toString'' \<notin> set (map fst ps))"
| "stringable v = True"

text \<open>
  What \<open>filter\<close> and \<open>join\<close> ask of the output of a \<open>Raw\<close> extractor: an array that is
  not empty is converted to a string; of an object with an own property \<open>length\<close> that
  property is converted for the comparison, and the object itself when the comparison
  holds. Every other output passes.
\<close>

fun raw_answers :: "host \<Rightarrow> propval \<Rightarrow> bool" where
  "raw_answers h (Data (JArr xs)) = (xs = [] \<or> stringable (JArr xs))"
| "raw_answers h (Data (JObj ps)) =
     (case map_of ps ''length'' of
        None \<Rightarrow> True
      | Some n \<Rightarrow> stringable n \<and> (gt_zero h n = Inr True \<longrightarrow> stringable (JObj ps)))"
| "raw_answers h x = True"

text \<open>
  An extractor answers on a frontmatter at a time when its part of \<open>calcDisplayText\<close>
  does not throw: a \<open>Date\<close> extractor that reads a truthy value needs the answer of
  \<open>moment\<close>, a \<open>Raw\<close> extractor that reads a truthy value needs the above.
\<close>

definition extractor_answers :: "host \<Rightarrow> nat \<Rightarrow> FrontMatterCache \<Rightarrow> ListItem \<Rightarrow> bool" where
  "extractor_answers h now fm item =
     (truthy_read (lookup fm (key item)) \<longrightarrow>
        (if type item = FrontmatterType_Raw then raw_answers h (lookup fm (key item))
         else if type item = FrontmatterType_Date then
           (case moment_format h now (lookup fm (key item)) (format item) of
              Inl e \<Rightarrow> False
            | Inr s \<Rightarrow> True)
         else True))"

text \<open>An output passes when neither its test in \<open>filter\<close> nor its conversion in \<open>join\<close> throws.\<close>

definition output_passes :: "host \<Rightarrow> propval \<Rightarrow> bool" where
  "output_passes h x =
     (case length_gt_zero h x of
        Inl e \<Rightarrow> False
      | Inr kept \<Rightarrow> kept \<longrightarrow> \<not> isl (ToString_read h x))"

text \<open>The decimal numeral of a natural number.\<close>

definition digit :: "nat \<Rightarrow> char" where
  "digit n = ''0123456789'' ! n"

function decimal :: "nat \<Rightarrow> string" where
  "decimal n = (if n < 10 then [digit n] else decimal (n div 10) @ [digit (n mod 10)])"
  by pat_completeness auto
termination
  by (relation "measure id") auto

declare decimal.simps [simp del]

text \<open>
  One interpretation of the host functions, for closed examples. Of \<open>moment\<close> it fixes
  three answers: an empty array and an empty object are read as the current time, which
  the format \<open>x\<close> renders in milliseconds; the string \<open>2020-03-01\<close> in the format
  \<open>YYYY\<close> is \<open>2020\<close>; a string that is no date is answered \<open>Invalid date\<close>. The examples
  call it on these values only.
\<close>

definition example_moment :: "nat \<Rightarrow> propval \<Rightarrow> string option \<Rightarrow> error + string" where
  "example_moment now v fmt =
     (if (v = Data (JArr []) \<or> v = Data (JObj [])) \<and> fmt = Some ''x'' then Inr (decimal now)
      else if v = Data (JStr ''2020-03-01'') \<and> fmt = Some ''YYYY'' then Inr ''2020''
      else Inr ''Invalid date'')"

definition example_host :: host where
  "example_host =
     \<lparr>num_to_string = (\<lambda>n. ''NaN''), string_to_num = (\<lambda>s. NaN),
      function_to_string = (\<lambda>name. ''function '' @ name @ ''() { [native code] }''),
      moment_format = example_moment\<rparr>"

text \<open>
  A plugin that has acquired a file explorer showing one folder and one note, whose
  frontmatter has a title, for closed examples.
\<close>

definition example_plugin :: ErikaPlugin where
  "example_plugin =
     \<lparr>settings =
        \<lparr>list = [\<lparr>key = ''title'', type = FrontmatterType_Raw, format = None\<rparr>],
         separator = ''|''\<rparr>,
      fileExplorer =
        Some \<lparr>fileItems =
          Some [(''notes'', \<lparr>file' = TFolder ''notes'', selfEl = 0\<rparr>),
                (''notes/a.md'', \<lparr>file' = TFile ''notes/a.md'', selfEl = 1\<rparr>)]\<rparr>,
      metadataCache = [''notes/a.md'' \<mapsto> \<lparr>frontmatter = Some [''title'' \<mapsto> JStr ''Alpha'']\<rparr>],
      attributes = Map.empty,
      effects = []\<rparr>"

text \<open>The write of one label, as a pair of the element and the label.\<close>

definition write_event :: "nat \<times> string \<Rightarrow> event" where
  "write_event w = SetAttribute (fst w) ''data-erika-value'' (snd w)"

definition apply_write :: "nat \<times> string \<Rightarrow> (nat \<times> string \<Rightarrow> string option) \<Rightarrow> (nat \<times> string \<Rightarrow> string option)" where
  "apply_write w a = a((fst w, ''data-erika-value'') \<mapsto> snd w)"

text \<open>
  What a refresh reads of the state: the settings, the acquired file explorer and the
  metadata cache. Two states have the same inputs when they agree on these.
\<close>

definition same_inputs :: "ErikaPlugin \<Rightarrow> ErikaPlugin \<Rightarrow> bool" where
  "same_inputs s t =
     (settings t = settings s \<and> fileExplorer t = fileExplorer s \<and> metadataCache t = metadataCache s)"

text \<open>The state after a list of label writes, and the state on entry of a refresh.\<close>

definition written :: "(nat \<times> string) list \<Rightarrow> ErikaPlugin \<Rightarrow> ErikaPlugin" where
  "written ws t =
     t\<lparr>attributes := fold apply_write ws (attributes t), effects := effects t @ map write_event ws\<rparr>"

definition entered :: "ErikaPlugin \<Rightarrow> ErikaPlugin" where
  "entered t = t\<lparr>effects := effects t @ [UpdateFileExplorerCalled]\<rparr>"

text \<open>
  The frontmatter that \<open>updateFileDisplay\<close> reads for a path, and the paths of the
  files that a refresh goes through.
\<close>

definition frontmatter_of :: "ErikaPlugin \<Rightarrow> string \<Rightarrow> FrontMatterCache option" where
  "frontmatter_of s p = (case metadataCache s p of None \<Rightarrow> None | Some c \<Rightarrow> frontmatter c)"

definition files_of :: "(string \<times> FileItem) list \<Rightarrow> string list" where
  "files_of items =
     concat (map (\<lambda>p. case file' (snd p) of TFile x \<Rightarrow> [x] | TFolder x \<Rightarrow> []) items)"

definition refreshed_paths :: "ErikaPlugin \<Rightarrow> string list" where
  "refreshed_paths s =
     (case fileExplorer s of
        None \<Rightarrow> []
      | Some fe \<Rightarrow> (case fileItems fe of None \<Rightarrow> [] | Some items \<Rightarrow> files_of items))"

text \<open>
  The dates of a frontmatter are steady when the answer of \<open>moment\<close> to each truthy value
  that a \<open>Date\<close> extractor reads does not depend on the time of the call.
\<close>

definition dates_steady :: "host \<Rightarrow> PluginSettings \<Rightarrow> FrontMatterCache option \<Rightarrow> bool" where
  "dates_steady h st snapshot =
     (case snapshot of
        None \<Rightarrow> True
      | Some fm \<Rightarrow>
          (\<forall>item \<in> set (list st).
             type item = FrontmatterType_Date \<longrightarrow> truthy_read (lookup fm (key item)) \<longrightarrow>
             (\<forall>t t'. moment_format h t (lookup fm (key item)) (format item) =
                      moment_format h t' (lookup fm (key item)) (format item))))"

text \<open>
  The leaves of a workspace whose third leaf shows the file explorer of the example, and
  a frontmatter whose title is the YAML value \<open>[{toString: 0}]\<close>.
\<close>

definition example_leaves :: "WorkspaceLeaf list" where
  "example_leaves =
     [\<lparr>view = None\<rparr>, \<lparr>view = Some \<lparr>fileItems = None\<rparr>\<rparr>, \<lparr>view = fileExplorer example_plugin\<rparr>]"

definition unconvertible_title :: CachedMetadata where
  "unconvertible_title =
     \<lparr>frontmatter = Some [''title'' \<mapsto> JArr [JObj [(''toString'', JNum (Fin 0))]]]\<rparr>"

text \<open>
  The plugin of the example with one \<open>Date\<close> extractor for the key \<open>d\<close> in the given
  format, the note holding the given value under \<open>d\<close>.
\<close>

definition dated_plugin :: "string \<Rightarrow> jsval \<Rightarrow> ErikaPlugin" where
  "dated_plugin fmt v =
     example_plugin
       \<lparr>settings :=
          \<lparr>list = [\<lparr>key = ''d'', type = FrontmatterType_Date, format = Some fmt\<rparr>],
           separator = ''|''\<rparr>,
        metadataCache := [''notes/a.md'' \<mapsto> \<lparr>frontmatter = Some [''d'' \<mapsto> v]\<rparr>]\<rparr>"

section \<open>Properties of the label compiler\<close>

lemma sequence_append:
  "sequence (xs @ ys) =
     (case sequence xs of
        Inl e \<Rightarrow> Inl e
      | Inr as \<Rightarrow> (case sequence ys of Inl e \<Rightarrow> Inl e | Inr bs \<Rightarrow> Inr (as @ bs)))"
  by (induction xs) (simp_all split: sum.splits)

lemma filter_js_skip:
  "p x = Inr False \<Longrightarrow> filter_js p (xs @ x # ys) = filter_js p (xs @ ys)"
  by (induction xs) (simp_all split: sum.splits)

lemma length_gt_zero_empty_string: "length_gt_zero h (Data (JStr [])) = Inr False"
  by (simp add: length_gt_zero_def gt_zero_def)

lemma calcDisplayText_skip:
  assumes "extractor_output h now fm item = Inr (Data (JStr []))"
  shows "calcDisplayText h now \<lparr>list = pre @ item # post, separator = sep\<rparr> (Some fm) =
         calcDisplayText h now \<lparr>list = pre @ post, separator = sep\<rparr> (Some fm)"
  using assms
  by (simp add: calcDisplayText_def sequence_append filter_js_skip length_gt_zero_empty_string
      split: sum.splits)

lemmas calc_simps =
  calcDisplayText_def extractor_output_def lookup_def Object_prototype_def length_gt_zero_def
  gt_zero_def Array_join_def FrontmatterType_Raw_def FrontmatterType_Date_def

text \<open>
  The two examples of the specification hold on the code, and so does the general
  rule whenever every extractor outputs a string: the label is the join of the
  non-empty outputs, in the order of the extractors.
\<close>

lemma calcDisplayText_spec_examples:
  "calcDisplayText h now
     \<lparr>list = [\<lparr>key = ''a'', type = FrontmatterType_Raw, format = None\<rparr>,
              \<lparr>key = ''b'', type = FrontmatterType_Raw, format = None\<rparr>],
      separator = ''|''\<rparr>
     (Some [''a'' \<mapsto> JStr ''X'', ''b'' \<mapsto> JStr ''Y'']) = Inr ''X | Y''"
  "calcDisplayText h now
     \<lparr>list = [\<lparr>key = ''a'', type = FrontmatterType_Raw, format = None\<rparr>,
              \<lparr>key = ''b'', type = FrontmatterType_Raw, format = None\<rparr>],
      separator = ''|''\<rparr>
     (Some [''a'' \<mapsto> JStr [], ''b'' \<mapsto> JStr ''Y'']) = Inr ''Y''"
  by (simp_all add: calc_simps)

lemma sequence_map_Inr: "sequence (map Inr xs) = Inr xs"
  by (induction xs) simp_all

lemma filter_js_strings:
  "filter_js (length_gt_zero h) (map (\<lambda>s. Data (JStr s)) ss) =
   Inr (map (\<lambda>s. Data (JStr s)) (filter (\<lambda>s. s \<noteq> []) ss))"
  by (induction ss) (simp_all add: length_gt_zero_def gt_zero_def)

lemma Array_join_strings: "Array_join h sep (map (\<lambda>s. Data (JStr s)) ss) = Inr (join sep ss)"
proof -
  have "sequence (map (\<lambda>x. if x = Data JUndefined \<or> x = Data JNull then Inr []
                            else ToString_read h x) (map (\<lambda>s. Data (JStr s)) ss)) = Inr ss"
    by (induction ss) simp_all
  then show ?thesis by (simp add: Array_join_def)
qed

lemma calcDisplayText_on_strings:
  assumes "map (extractor_output h now fm) (list st) = map Inr (map (\<lambda>s. Data (JStr s)) outs)"
  shows "calcDisplayText h now st (Some fm) =
         Inr (join ('' '' @ separator st @ '' '') (filter (\<lambda>s. s \<noteq> []) outs))"
proof -
  have "sequence (map (extractor_output h now fm) (list st)) =
        Inr (map (\<lambda>s. Data (JStr s)) outs)"
    by (simp only: assms sequence_map_Inr)
  then show ?thesis
    by (simp add: calcDisplayText_def filter_js_strings Array_join_strings)
qed

text \<open>
  Claim C3, evaluated on the code. A \<open>Raw\<close> extractor whose key holds the number 42, a
  truthy value, contributes nothing to the label: \<open>filter(i => i.length > 0)\<close> is
  applied to the value itself, and \<open>(42).length\<close> is \<open>undefined\<close>. The label is empty
  although the key is present and its value is not falsy.
\<close>

theorem raw_number_is_dropped:
  "truthy (JNum (Fin 42)) \<and>
   calcDisplayText h now
     \<lparr>list = [\<lparr>key = ''a'', type = FrontmatterType_Raw, format = None\<rparr>], separator = ''|''\<rparr>
     (Some [''a'' \<mapsto> JNum (Fin 42)]) = Inr []"
  by (simp add: calc_simps)

text \<open>
  Claim C4, evaluated on the code. With the extractors \<open>a\<close> and \<open>b\<close>, both \<open>Raw\<close>, the
  separator \<open>|\<close> and the frontmatter \<open>{a: [""], b: "Y"}\<close>, the output of \<open>a\<close> has the
  empty string as its string form but is not discarded, since the array has length 1:
  the label is \<open>" | Y"\<close>, with a dangling separator.
\<close>

theorem empty_rendering_is_not_discarded:
  "calcDisplayText h now
     \<lparr>list = [\<lparr>key = ''a'', type = FrontmatterType_Raw, format = None\<rparr>,
              \<lparr>key = ''b'', type = FrontmatterType_Raw, format = None\<rparr>],
      separator = ''|''\<rparr>
     (Some [''a'' \<mapsto> JArr [JStr []], ''b'' \<mapsto> JStr ''Y'']) = Inr '' | Y''"
  by (simp add: calc_simps)

text \<open>
  Claim C8. An extractor whose type is neither \<open>raw\<close> nor \<open>date\<close> produces the empty
  string, whatever the frontmatter holds, and the label is the one computed without this
  extractor: it contributes nothing, and it adds no throw of its own.
\<close>

theorem unknown_type_contributes_nothing:
  assumes "type item \<noteq> FrontmatterType_Raw" and "type item \<noteq> FrontmatterType_Date"
  shows "extractor_output h now fm item = Inr (Data (JStr [])) \<and>
         calcDisplayText h now \<lparr>list = pre @ item # post, separator = sep\<rparr> (Some fm) =
         calcDisplayText h now \<lparr>list = pre @ post, separator = sep\<rparr> (Some fm)"
proof -
  from assms have out: "extractor_output h now fm item = Inr (Data (JStr []))"
    by (simp add: extractor_output_def)
  with calcDisplayText_skip [OF out] show ?thesis by simp
qed

theorem unknown_type_contributes_nothing_witness:
  "type \<lparr>key = ''a'', type = ''number'', format = None\<rparr> \<noteq> FrontmatterType_Raw \<and>
   type \<lparr>key = ''a'', type = ''number'', format = None\<rparr> \<noteq> FrontmatterType_Date \<and>
   extractor_output example_host 0 [''a'' \<mapsto> JStr ''X'', ''b'' \<mapsto> JStr ''Y'']
     \<lparr>key = ''a'', type = ''number'', format = None\<rparr> = Inr (Data (JStr [])) \<and>
   calcDisplayText example_host 0
     \<lparr>list = [\<lparr>key = ''a'', type = ''number'', format = None\<rparr>,
              \<lparr>key = ''b'', type = FrontmatterType_Raw, format = None\<rparr>],
      separator = ''|''\<rparr>
     (Some [''a'' \<mapsto> JStr ''X'', ''b'' \<mapsto> JStr ''Y'']) = Inr ''Y''"
  using unknown_type_contributes_nothing
    [where item = "\<lparr>key = ''a'', type = ''number'', format = None\<rparr>"
       and h = example_host and now = 0
       and fm = "[''a'' \<mapsto> JStr ''X'', ''b'' \<mapsto> JStr ''Y'']"
       and pre = "[]" and sep = "''|''"
       and post = "[\<lparr>key = ''b'', type = FrontmatterType_Raw, format = None\<rparr>]"]
  by (simp add: calc_simps)

text \<open>
  Claim C9. A \<open>Date\<close> extractor whose key is present with a falsy value (\<open>null\<close>,
  \<open>false\<close>, \<open>0\<close>, \<open>NaN\<close> or the empty string) produces the empty string and leaves
  the label as it is without this extractor. This holds for every formatter put in the
  place of \<open>moment\<close>, also one that throws or reads the clock: the result does not
  depend on it, the formatter is not consulted.
\<close>

theorem date_falsy_contributes_nothing:
  assumes "type item = FrontmatterType_Date" and "fm (key item) = Some v" and "\<not> truthy v"
  shows "extractor_output (h\<lparr>moment_format := formatter\<rparr>) now fm item = Inr (Data (JStr [])) \<and>
         calcDisplayText (h\<lparr>moment_format := formatter\<rparr>) now
           \<lparr>list = pre @ item # post, separator = sep\<rparr> (Some fm) =
         calcDisplayText (h\<lparr>moment_format := formatter\<rparr>) now
           \<lparr>list = pre @ post, separator = sep\<rparr> (Some fm)"
proof -
  from assms
  have out: "extractor_output (h\<lparr>moment_format := formatter\<rparr>) now fm item = Inr (Data (JStr []))"
    by (simp add: extractor_output_def lookup_def FrontmatterType_Raw_def FrontmatterType_Date_def)
  with calcDisplayText_skip [OF out] show ?thesis by simp
qed

theorem date_falsy_contributes_nothing_witness:
  "type \<lparr>key = ''d'', type = FrontmatterType_Date, format = Some ''YYYY''\<rparr> = FrontmatterType_Date \<and>
   [''d'' \<mapsto> JNum (Fin 0), ''b'' \<mapsto> JStr ''Y'']
     (key \<lparr>key = ''d'', type = FrontmatterType_Date, format = Some ''YYYY''\<rparr>) = Some (JNum (Fin 0)) \<and>
   \<not> truthy (JNum (Fin 0)) \<and>
   calcDisplayText (example_host\<lparr>moment_format := (\<lambda>t v fmt. Inl TypeError)\<rparr>) 0
     \<lparr>list = [\<lparr>key = ''d'', type = FrontmatterType_Date, format = Some ''YYYY''\<rparr>,
              \<lparr>key = ''b'', type = FrontmatterType_Raw, format = None\<rparr>],
      separator = ''|''\<rparr>
     (Some [''d'' \<mapsto> JNum (Fin 0), ''b'' \<mapsto> JStr ''Y'']) = Inr ''Y''"
  using date_falsy_contributes_nothing
    [where item = "\<lparr>key = ''d'', type = FrontmatterType_Date, format = Some ''YYYY''\<rparr>"
       and h = example_host and now = 0
       and fm = "[''d'' \<mapsto> JNum (Fin 0), ''b'' \<mapsto> JStr ''Y'']"
       and v = "JNum (Fin 0)" and formatter = "\<lambda>t v fmt. Inl TypeError"
       and pre = "[]" and sep = "''|''"
       and post = "[\<lparr>key = ''b'', type = FrontmatterType_Raw, format = None\<rparr>]"]
  by (simp add: calc_simps)

text \<open>
  Claim C10. Under the built-in default settings (one \<open>Raw\<close> extractor with the empty
  key, separator \<open>|\<close>) the label is the empty string for an absent frontmatter and for
  every frontmatter in which the empty string is not a key.
\<close>

theorem default_settings_label_empty:
  assumes "case snapshot of None \<Rightarrow> True | Some fm \<Rightarrow> fm [] = None"
  shows "calcDisplayText h now DEFAULT_SETTINGS snapshot = Inr []"
  using assms
  by (simp add: calc_simps DEFAULT_SETTINGS_def split: option.splits)

theorem default_settings_label_empty_witness:
  "[''title'' \<mapsto> JStr ''Erika'', ''rating'' \<mapsto> JNum (Fin 5)] [] = None \<and>
   calcDisplayText example_host 0 DEFAULT_SETTINGS
     (Some [''title'' \<mapsto> JStr ''Erika'', ''rating'' \<mapsto> JNum (Fin 5)]) = Inr []"
  using default_settings_label_empty
    [where snapshot = "Some [''title'' \<mapsto> JStr ''Erika'', ''rating'' \<mapsto> JNum (Fin 5)]"
       and h = example_host and now = 0]
  by simp

text \<open>
  When does \<open>calcDisplayText\<close> return? Each of its three passes returns exactly when
  none of its callbacks throws, and a value converts to a string exactly when it is
  stringable.
\<close>

lemma sequence_Inr_iff:
  "(\<exists>xs. sequence rs = Inr xs) \<longleftrightarrow> (\<forall>r \<in> set rs. \<exists>x. r = Inr x)"
  by (induction rs) (auto split: sum.splits)

lemma sequence_Inr_D: "sequence rs = Inr xs \<Longrightarrow> rs = map Inr xs"
  by (induction rs arbitrary: xs) (auto split: sum.splits)

lemma filter_js_Inr_iff:
  "(\<exists>ys. filter_js p xs = Inr ys) \<longleftrightarrow> (\<forall>x \<in> set xs. \<exists>b. p x = Inr b)"
  by (induction xs) (auto split: sum.splits)

lemma filter_js_Inr_D: "filter_js p xs = Inr ys \<Longrightarrow> ys = filter (\<lambda>x. p x = Inr True) xs"
  by (induction xs arbitrary: ys) (auto split: sum.splits)

lemma ToString_stringable: "(\<exists>s. ToString h v = Inr s) \<longleftrightarrow> stringable v"
proof (induction v)
  case (JArr xs)
  let ?g = "\<lambda>x. if x = JUndefined \<or> x = JNull then Inr [] else ToString h x"
  have element: "(\<exists>s. ?g x = Inr s) \<longleftrightarrow> stringable x" if "x \<in> set xs" for x
    using JArr [OF that] by auto
  have "(\<exists>ss. sequence (map ?g xs) = Inr ss) \<longleftrightarrow> (\<forall>r \<in> set (map ?g xs). \<exists>s. r = Inr s)"
    by (rule sequence_Inr_iff)
  also have "\<dots> \<longleftrightarrow> (\<forall>x \<in> set xs. \<exists>s. ?g x = Inr s)"
    by auto
  also have "\<dots> \<longleftrightarrow> (\<forall>x \<in> set xs. stringable x)"
    using element by blast
  finally have "(\<exists>ss. sequence (map ?g xs) = Inr ss) \<longleftrightarrow> list_all stringable xs"
    by (simp add: list_all_iff)
  then show ?case by (auto split: sum.splits)
qed simp_all

lemma ToString_read_Data: "(\<exists>s. ToString_read h (Data v) = Inr s) \<longleftrightarrow> stringable v"
  by (simp add: ToString_stringable)

lemma ToPrimitive_stringable: "(\<exists>p. ToPrimitive h n = Inr p) \<longleftrightarrow> stringable n"
proof -
  have "(\<exists>p. ToPrimitive h n = Inr p) \<longleftrightarrow> (\<exists>s. ToString h n = Inr s)"
  proof (cases n)
    case (JArr xs)
    then show ?thesis
      by (cases "ToString h (JArr xs)") (simp_all del: ToString.simps)
  next
    case (JObj ps)
    then show ?thesis
      by (cases "ToString h (JObj ps)") (simp_all del: ToString.simps)
  qed simp_all
  then show ?thesis by (simp only: ToString_stringable)
qed

lemma gt_zero_stringable: "(\<exists>b. gt_zero h n = Inr b) \<longleftrightarrow> stringable n"
proof -
  have "(\<exists>b. gt_zero h n = Inr b) \<longleftrightarrow> (\<exists>p. ToPrimitive h n = Inr p)"
    by (cases "ToPrimitive h n") (simp_all add: gt_zero_def)
  then show ?thesis by (simp only: ToPrimitive_stringable)
qed

lemma not_isl_iff: "\<not> isl r \<longleftrightarrow> (\<exists>x. r = Inr x)"
  by (cases r) simp_all

lemma ToString_isl: "isl (ToString h v) \<longleftrightarrow> \<not> stringable v"
  using ToString_stringable [of h v] not_isl_iff [of "ToString h v"] by blast

lemma output_passes_raw:
  assumes "truthy_read x"
  shows "output_passes h x \<longleftrightarrow> raw_answers h x"
proof (cases x)
  case (Data v)
  show ?thesis
  proof (cases v)
    case (JArr xs)
    have "output_passes h (Data (JArr xs)) \<longleftrightarrow> (xs \<noteq> [] \<longrightarrow> \<not> isl (ToString h (JArr xs)))"
      by (simp add: output_passes_def length_gt_zero_def gt_zero_def del: ToString.simps)
    with Data JArr show ?thesis
      by (auto simp: ToString_isl simp del: ToString.simps)
  next
    case (JObj ps)
    show ?thesis
    proof (cases "map_of ps ''length''")
      case None
      with Data JObj show ?thesis
        by (simp add: output_passes_def length_gt_zero_def gt_zero_def)
    next
      case (Some n)
      have passes: "output_passes h (Data (JObj ps)) \<longleftrightarrow>
          (case gt_zero h n of
             Inl e \<Rightarrow> False
           | Inr kept \<Rightarrow> kept \<longrightarrow> stringable (JObj ps))"
        using Some
        by (simp add: output_passes_def length_gt_zero_def ToString_isl del: ToString.simps
            split: sum.splits)
      show ?thesis
      proof (cases "gt_zero h n")
        case (Inl e)
        with gt_zero_stringable [of h n] have "\<not> stringable n" by simp
        with Inl passes Data JObj Some show ?thesis by simp
      next
        case (Inr kept)
        with gt_zero_stringable [of h n] have "stringable n" by simp
        with Inr passes Data JObj Some show ?thesis by simp
      qed
    qed
  qed (use Data assms in \<open>simp_all add: output_passes_def length_gt_zero_def gt_zero_def\<close>)
qed (simp_all add: output_passes_def length_gt_zero_def)

lemma output_passes_string: "output_passes h (Data (JStr s))"
  by (simp add: output_passes_def length_gt_zero_def gt_zero_def)

lemma extractor_answers_iff:
  "(\<exists>x. extractor_output h now fm item = Inr x \<and> output_passes h x) \<longleftrightarrow>
   extractor_answers h now fm item"
proof (cases "truthy_read (lookup fm (key item))")
  case False
  then show ?thesis
    by (simp add: extractor_output_def extractor_answers_def output_passes_string)
next
  case True
  show ?thesis
  proof (cases "type item = FrontmatterType_Raw")
    case raw: True
    with True output_passes_raw [OF True, of h] show ?thesis
      by (simp add: extractor_output_def extractor_answers_def)
  next
    case False
    with True show ?thesis
      by (auto simp: extractor_output_def extractor_answers_def output_passes_string
          split: sum.splits)
  qed
qed

lemma join_elements_iff:
  "(\<exists>s. (if x = Data JUndefined \<or> x = Data JNull then Inr [] else ToString_read h x) = Inr s)
   \<longleftrightarrow> (\<exists>s. ToString_read h x = Inr s)"
  by auto

lemma Array_join_Inr_iff:
  "(\<exists>s. Array_join h sep xs = Inr s) \<longleftrightarrow> (\<forall>x \<in> set xs. \<exists>s. ToString_read h x = Inr s)"
proof -
  let ?g = "\<lambda>x. if x = Data JUndefined \<or> x = Data JNull then Inr [] else ToString_read h x"
  have "(\<exists>s. Array_join h sep xs = Inr s) \<longleftrightarrow> (\<exists>ss. sequence (map ?g xs) = Inr ss)"
    by (auto simp: Array_join_def split: sum.splits)
  also have "\<dots> \<longleftrightarrow> (\<forall>x \<in> set xs. \<exists>s. ?g x = Inr s)"
    by (simp only: sequence_Inr_iff) auto
  also have "\<dots> \<longleftrightarrow> (\<forall>x \<in> set xs. \<exists>s. ToString_read h x = Inr s)"
    using join_elements_iff [of _ h] by blast
  finally show ?thesis .
qed

lemma filter_join_iff:
  "(\<exists>label. (case filter_js (length_gt_zero h) outputs of
                 Inl e \<Rightarrow> Inl e
               | Inr kept \<Rightarrow> Array_join h sep kept) = Inr label)
   \<longleftrightarrow> (\<forall>x \<in> set outputs. output_passes h x)"
proof
  assume "\<exists>label. (case filter_js (length_gt_zero h) outputs of
                 Inl e \<Rightarrow> Inl e
               | Inr kept \<Rightarrow> Array_join h sep kept) = Inr label"
  then obtain kept label where kept: "filter_js (length_gt_zero h) outputs = Inr kept"
    and joined: "Array_join h sep kept = Inr label"
    by (auto split: sum.splits)
  from kept have tested: "\<forall>x \<in> set outputs. \<exists>b. length_gt_zero h x = Inr b"
    using filter_js_Inr_iff [of "length_gt_zero h" outputs] by blast
  from kept have which: "kept = filter (\<lambda>x. length_gt_zero h x = Inr True) outputs"
    by (rule filter_js_Inr_D)
  from joined have "\<forall>x \<in> set kept. \<exists>s. ToString_read h x = Inr s"
    using Array_join_Inr_iff [of h sep kept] by blast
  with which have converted: "\<forall>x \<in> set outputs. length_gt_zero h x = Inr True \<longrightarrow>
      \<not> isl (ToString_read h x)"
    by (simp add: not_isl_iff)
  show "\<forall>x \<in> set outputs. output_passes h x"
  proof
    fix x assume x: "x \<in> set outputs"
    with tested obtain b where b: "length_gt_zero h x = Inr b" by blast
    with converted x have "b \<longrightarrow> \<not> isl (ToString_read h x)" by simp
    with b show "output_passes h x" by (simp add: output_passes_def)
  qed
next
  assume passes: "\<forall>x \<in> set outputs. output_passes h x"
  have "\<exists>b. length_gt_zero h x = Inr b" if "x \<in> set outputs" for x
    using passes that by (cases "length_gt_zero h x") (auto simp: output_passes_def)
  then obtain kept where kept: "filter_js (length_gt_zero h) outputs = Inr kept"
    using filter_js_Inr_iff [of "length_gt_zero h" outputs] by blast
  then have which: "kept = filter (\<lambda>x. length_gt_zero h x = Inr True) outputs"
    by (rule filter_js_Inr_D)
  have "\<exists>s. ToString_read h x = Inr s" if "x \<in> set kept" for x
  proof -
    from that which have "x \<in> set outputs" and "length_gt_zero h x = Inr True" by simp_all
    with passes have "\<not> isl (ToString_read h x)" by (auto simp: output_passes_def)
    then show ?thesis by (simp add: not_isl_iff)
  qed
  then obtain label where "Array_join h sep kept = Inr label"
    using Array_join_Inr_iff [of h sep kept] by blast
  with kept show "\<exists>label. (case filter_js (length_gt_zero h) outputs of
                 Inl e \<Rightarrow> Inl e
               | Inr kept \<Rightarrow> Array_join h sep kept) = Inr label"
    by simp
qed

text \<open>
  Claim C5, as the code has it. \<open>calcDisplayText\<close> returns a string, without throwing,
  for an absent frontmatter; for a frontmatter it returns a string exactly when every
  extractor answers, and throws otherwise. An extractor that reads a falsy value, or
  whose type is unknown, always answers. A \<open>Date\<close> extractor that reads a truthy value
  answers when \<open>moment\<close> does. A \<open>Raw\<close> extractor that reads a truthy value answers
  unless the value is a non-empty array that is not stringable, or an object whose own
  \<open>length\<close> is not stringable, or is greater than zero while the object is not
  stringable.
\<close>

theorem calcDisplayText_returns_iff:
  "(\<exists>label. calcDisplayText h now st snapshot = Inr label) \<longleftrightarrow>
   (case snapshot of
      None \<Rightarrow> True
    | Some fm \<Rightarrow> \<forall>item \<in> set (list st). extractor_answers h now fm item)"
proof (cases snapshot)
  case None
  then show ?thesis by (simp add: calcDisplayText_def)
next
  case (Some fm)
  let ?f = "extractor_output h now fm"
  let ?sep = "'' '' @ separator st @ '' ''"
  have "(\<exists>label. calcDisplayText h now st (Some fm) = Inr label) \<longleftrightarrow>
        (\<forall>item \<in> set (list st). \<exists>x. ?f item = Inr x \<and> output_passes h x)"
  proof
    assume "\<exists>label. calcDisplayText h now st (Some fm) = Inr label"
    then obtain outputs label where outs: "sequence (map ?f (list st)) = Inr outputs"
      and rest: "(case filter_js (length_gt_zero h) outputs of
                    Inl e \<Rightarrow> Inl e
                  | Inr kept \<Rightarrow> Array_join h ?sep kept) = Inr label"
      by (auto simp: calcDisplayText_def split: sum.splits)
    from rest have passes: "\<forall>x \<in> set outputs. output_passes h x"
      using filter_join_iff [where h = h and outputs = outputs and sep = ?sep] by blast
    from outs have "map ?f (list st) = map Inr outputs" by (rule sequence_Inr_D)
    then have "\<forall>item \<in> set (list st). \<exists>x \<in> set outputs. ?f item = Inr x"
      by (metis (no_types, lifting) image_iff list.set_map)
    with passes show "\<forall>item \<in> set (list st). \<exists>x. ?f item = Inr x \<and> output_passes h x"
      by blast
  next
    assume all: "\<forall>item \<in> set (list st). \<exists>x. ?f item = Inr x \<and> output_passes h x"
    then have "\<forall>r \<in> set (map ?f (list st)). \<exists>x. r = Inr x" by auto
    then obtain outputs where outs: "sequence (map ?f (list st)) = Inr outputs"
      using sequence_Inr_iff [of "map ?f (list st)"] by blast
    then have "map ?f (list st) = map Inr outputs" by (rule sequence_Inr_D)
    then have "\<forall>x \<in> set outputs. \<exists>item \<in> set (list st). ?f item = Inr x"
      by (metis (no_types, lifting) image_iff list.set_map)
    with all have "\<forall>x \<in> set outputs. output_passes h x" by force
    then obtain label where "(case filter_js (length_gt_zero h) outputs of
                    Inl e \<Rightarrow> Inl e
                  | Inr kept \<Rightarrow> Array_join h ?sep kept) = Inr label"
      using filter_join_iff [where h = h and outputs = outputs and sep = ?sep] by blast
    with outs show "\<exists>label. calcDisplayText h now st (Some fm) = Inr label"
      by (simp add: calcDisplayText_def)
  qed
  with Some show ?thesis by (simp add: extractor_answers_iff)
qed

text \<open>
  An instance: the object nested in the array has no own \<open>toString\<close> (its field has),
  so the array converts, and \<open>moment\<close> answers the string that is no date.
\<close>

theorem calcDisplayText_returns_iff_witness:
  "extractor_answers example_host 0
     [''tags'' \<mapsto> JArr [JStr ''x'', JNull, JObj [(''k'', JObj [(''toString'', JNum (Fin 0))])]],
      ''due'' \<mapsto> JStr ''soon'']
     \<lparr>key = ''tags'', type = FrontmatterType_Raw, format = None\<rparr> \<and>
   extractor_answers example_host 0
     [''tags'' \<mapsto> JArr [JStr ''x'', JNull, JObj [(''k'', JObj [(''toString'', JNum (Fin 0))])]],
      ''due'' \<mapsto> JStr ''soon'']
     \<lparr>key = ''due'', type = FrontmatterType_Date, format = None\<rparr> \<and>
   calcDisplayText example_host 0
     \<lparr>list = [\<lparr>key = ''tags'', type = FrontmatterType_Raw, format = None\<rparr>,
              \<lparr>key = ''due'', type = FrontmatterType_Date, format = None\<rparr>],
      separator = ''|''\<rparr>
     (Some [''tags'' \<mapsto> JArr [JStr ''x'', JNull, JObj [(''k'', JObj [(''toString'', JNum (Fin 0))])]],
            ''due'' \<mapsto> JStr ''soon'']) =
   Inr ''x,,[object Object] | Invalid date''"
  using calcDisplayText_returns_iff
    [where h = example_host and now = 0
       and st = "\<lparr>list = [\<lparr>key = ''tags'', type = FrontmatterType_Raw, format = None\<rparr>,
                           \<lparr>key = ''due'', type = FrontmatterType_Date, format = None\<rparr>],
                   separator = ''|''\<rparr>"
       and snapshot = "Some [''tags'' \<mapsto> JArr [JStr ''x'', JNull,
                                 JObj [(''k'', JObj [(''toString'', JNum (Fin 0))])]],
                             ''due'' \<mapsto> JStr ''soon'']"]
  by (simp add: calc_simps extractor_answers_def example_host_def example_moment_def)

text \<open>
  The claim as stated fails: with the frontmatter \<open>{title: [{toString: 0}]}\<close> the array
  passes the filter, and \<open>join\<close> throws a \<open>TypeError\<close> when it converts the object.
\<close>

theorem calcDisplayText_throws:
  "calcDisplayText example_host 0
     \<lparr>list = [\<lparr>key = ''title'', type = FrontmatterType_Raw, format = None\<rparr>], separator = ''|''\<rparr>
     (Some [''title'' \<mapsto> JArr [JObj [(''toString'', JNum (Fin 0))]]]) = Inl TypeError"
  by (simp add: calc_simps)

section \<open>Properties of the display synchronizer\<close>

lemma written_Nil: "written [] t = t"
  by (simp add: written_def)

lemma written_single:
  "written [(el, v)] t = setAttribute el ''data-erika-value'' v t"
  by (simp add: written_def setAttribute_def apply_write_def write_event_def)

lemma written_append: "written ws' (written ws t) = written (ws @ ws') t"
  by (simp add: written_def)

lemma same_inputs_refl: "same_inputs s s"
  by (simp add: same_inputs_def)

lemma same_inputs_written: "same_inputs s t \<Longrightarrow> same_inputs s (written ws t)"
  by (simp add: same_inputs_def written_def)

lemma same_inputs_entered: "same_inputs s t \<Longrightarrow> same_inputs s (entered t)"
  by (simp add: same_inputs_def entered_def)

lemma updateFileDisplay_shape:
  "\<exists>r ws. \<forall>t. same_inputs s t \<longrightarrow> updateFileDisplay h now f t = (r, written ws t)"
proof (cases "fileExplorer s")
  case None
  then have "\<forall>t. same_inputs s t \<longrightarrow> updateFileDisplay h now f t = (None, written [] t)"
    by (simp add: same_inputs_def updateFileDisplay_def written_Nil)
  then show ?thesis by blast
next
  case fe: (Some fe)
  show ?thesis
  proof (cases "fileItems fe")
    case None
    with fe have "\<forall>t. same_inputs s t \<longrightarrow> updateFileDisplay h now f t = (Some TypeError, written [] t)"
      by (simp add: same_inputs_def updateFileDisplay_def written_Nil)
    then show ?thesis by blast
  next
    case items: (Some items)
    show ?thesis
    proof (cases "map_of items (path f)")
      case None
      with fe items
      have "\<forall>t. same_inputs s t \<longrightarrow>
              updateFileDisplay h now f t = (fst (updateFileDisplay h now f s), written [] t)"
        by (simp add: same_inputs_def updateFileDisplay_def written_Nil
            split: option.splits sum.splits)
      then show ?thesis by blast
    next
      case item: (Some item)
      show ?thesis
      proof (cases "calcDisplayText h now (settings s)
                      (case metadataCache s (path f) of None \<Rightarrow> None | Some c \<Rightarrow> frontmatter c)")
        case (Inl e)
        with fe items item
        have "\<forall>t. same_inputs s t \<longrightarrow> updateFileDisplay h now f t = (Some e, written [] t)"
          by (simp add: same_inputs_def updateFileDisplay_def written_Nil)
        then show ?thesis by blast
      next
        case (Inr label)
        with fe items item
        have "\<forall>t. same_inputs s t \<longrightarrow>
                updateFileDisplay h now f t = (None, written [(selfEl item, label)] t)"
          by (simp add: same_inputs_def updateFileDisplay_def written_single)
        then show ?thesis by blast
      qed
    qed
  qed
qed

lemma for_in_fileItems_shape:
  "\<exists>r ws. \<forall>t. same_inputs s t \<longrightarrow> for_in_fileItems h now items t = (r, written ws t)"
proof (induction items)
  case Nil
  have "\<forall>t. same_inputs s t \<longrightarrow> for_in_fileItems h now [] t = (None, written [] t)"
    by (simp add: written_Nil)
  then show ?case by blast
next
  case (Cons p rest)
  then obtain r2 ws2
    where rest: "\<And>t. same_inputs s t \<Longrightarrow> for_in_fileItems h now rest t = (r2, written ws2 t)"
    by blast
  show ?case
  proof (cases "file' (snd p)")
    case (TFolder x)
    with rest have "\<forall>t. same_inputs s t \<longrightarrow> for_in_fileItems h now (p # rest) t = (r2, written ws2 t)"
      by simp
    then show ?thesis by blast
  next
    case (TFile x)
    obtain r1 ws1
      where one: "\<And>t. same_inputs s t \<Longrightarrow> updateFileDisplay h now (file' (snd p)) t = (r1, written ws1 t)"
      using updateFileDisplay_shape [where s = s and h = h and now = now and f = "file' (snd p)"] by blast
    show ?thesis
    proof (cases r1)
      case (Some e)
      with TFile one
      have "\<forall>t. same_inputs s t \<longrightarrow> for_in_fileItems h now (p # rest) t = (Some e, written ws1 t)"
        by simp
      then show ?thesis by blast
    next
      case None
      have "for_in_fileItems h now (p # rest) t = (r2, written (ws1 @ ws2) t)" if t: "same_inputs s t" for t
      proof -
        from t have "same_inputs s (written ws1 t)" by (rule same_inputs_written)
        then have "for_in_fileItems h now rest (written ws1 t) = (r2, written (ws1 @ ws2) t)"
          using rest by (simp add: written_append)
        with TFile None one [OF t] show ?thesis by simp
      qed
      then show ?thesis by blast
    qed
  qed
qed

lemma updateFileExplorer_shape:
  "\<exists>r ws. \<forall>t. same_inputs s t \<longrightarrow> updateFileExplorer h now t = (r, written ws (entered t))"
proof (cases "fileExplorer s")
  case None
  then have "\<forall>t. same_inputs s t \<longrightarrow> updateFileExplorer h now t = (None, written [] (entered t))"
    by (simp add: same_inputs_def updateFileExplorer_def written_Nil entered_def)
  then show ?thesis by blast
next
  case fe: (Some fe)
  show ?thesis
  proof (cases "fileItems fe")
    case None
    with fe have "\<forall>t. same_inputs s t \<longrightarrow> updateFileExplorer h now t = (None, written [] (entered t))"
      by (simp add: same_inputs_def updateFileExplorer_def written_Nil entered_def)
    then show ?thesis by blast
  next
    case (Some items)
    obtain r ws
      where loop: "\<And>t. same_inputs s t \<Longrightarrow> for_in_fileItems h now items t = (r, written ws t)"
      using for_in_fileItems_shape [where s = s and h = h and now = now and items = items] by blast
    have "updateFileExplorer h now t = (r, written ws (entered t))" if t: "same_inputs s t" for t
    proof -
      from t have "for_in_fileItems h now items (entered t) = (r, written ws (entered t))"
        by (intro loop same_inputs_entered)
      with t fe Some show ?thesis
        by (simp add: same_inputs_def updateFileExplorer_def entered_def)
    qed
    then show ?thesis by blast
  qed
qed

lemma fold_apply_write_lookup:
  "fold apply_write ws a k =
     (case map_of (rev (map (\<lambda>w. ((fst w, ''data-erika-value''), snd w)) ws)) k of
        None \<Rightarrow> a k
      | Some v \<Rightarrow> Some v)"
proof (induction ws arbitrary: a)
  case Nil
  show ?case by simp
next
  case (Cons w ws)
  have "fold apply_write (w # ws) a k = fold apply_write ws (apply_write w a) k"
    by simp
  also have "\<dots> =
     (case map_of (rev (map (\<lambda>w. ((fst w, ''data-erika-value''), snd w)) ws)) k of
        None \<Rightarrow> apply_write w a k
      | Some v \<Rightarrow> Some v)"
    by (rule Cons.IH)
  also have "\<dots> =
     (case map_of (rev (map (\<lambda>w. ((fst w, ''data-erika-value''), snd w)) (w # ws))) k of
        None \<Rightarrow> a k
      | Some v \<Rightarrow> Some v)"
    by (simp add: apply_write_def map_add_def split: option.splits)
  finally show ?case .
qed

lemma fold_apply_write_twice:
  "fold apply_write ws (fold apply_write ws a) = fold apply_write ws a"
  by (rule ext) (simp add: fold_apply_write_lookup split: option.splits)


lemma updateFileExplorer_same_time:
  "fst (updateFileExplorer h now (snd (updateFileExplorer h now s))) =
     fst (updateFileExplorer h now s) \<and>
   attributes (snd (updateFileExplorer h now (snd (updateFileExplorer h now s)))) =
     attributes (snd (updateFileExplorer h now s)) \<and>
   effects (snd (updateFileExplorer h now (snd (updateFileExplorer h now s)))) =
     effects (snd (updateFileExplorer h now s)) @
     drop (length (effects s)) (effects (snd (updateFileExplorer h now s)))"
proof -
  obtain r ws
    where run: "\<And>t. same_inputs s t \<Longrightarrow> updateFileExplorer h now t = (r, written ws (entered t))"
    using updateFileExplorer_shape [where s = s and h = h and now = now] by blast
  have first: "updateFileExplorer h now s = (r, written ws (entered s))"
    by (rule run) (rule same_inputs_refl)
  have "same_inputs s (written ws (entered s))"
    by (intro same_inputs_written same_inputs_entered same_inputs_refl)
  then have second: "updateFileExplorer h now (written ws (entered s)) =
      (r, written ws (entered (written ws (entered s))))"
    by (rule run)
  show ?thesis
    by (simp only: first second fst_conv snd_conv)
       (simp add: written_def entered_def fold_apply_write_twice)
qed

lemma same_inputs_after_refresh: "same_inputs s (snd (updateFileExplorer h now s))"
proof -
  obtain r ws
    where run: "\<And>t. same_inputs s t \<Longrightarrow> updateFileExplorer h now t = (r, written ws (entered t))"
    using updateFileExplorer_shape [where s = s and h = h and now = now] by blast
  have "updateFileExplorer h now s = (r, written ws (entered s))"
    by (rule run) (rule same_inputs_refl)
  then show ?thesis
    by (simp add: same_inputs_written same_inputs_entered same_inputs_refl)
qed

lemma same_inputs_after_display:
  "same_inputs s t \<Longrightarrow> same_inputs s (snd (updateFileDisplay h now f t))"
proof -
  assume t: "same_inputs s t"
  obtain r ws
    where "\<And>u. same_inputs s u \<Longrightarrow> updateFileDisplay h now f u = (r, written ws u)"
    using updateFileDisplay_shape [where s = s and h = h and now = now and f = f] by blast
  with t have "updateFileDisplay h now f t = (r, written ws t)" by blast
  with t show ?thesis by (simp add: same_inputs_written)
qed

lemma extractor_output_steady:
  assumes "dates_steady h st (Some fm)" and "item \<in> set (list st)"
  shows "extractor_output h t fm item = extractor_output h t' fm item"
proof (cases "type item = FrontmatterType_Date \<and> truthy_read (lookup fm (key item))")
  case True
  with assms have "moment_format h t (lookup fm (key item)) (format item) =
      moment_format h t' (lookup fm (key item)) (format item)"
    by (simp add: dates_steady_def)
  then show ?thesis by (simp add: extractor_output_def)
next
  case False
  then show ?thesis by (auto simp: extractor_output_def)
qed

lemma calcDisplayText_steady:
  assumes "dates_steady h st snapshot"
  shows "calcDisplayText h t st snapshot = calcDisplayText h t' st snapshot"
proof (cases snapshot)
  case None
  then show ?thesis by (simp add: calcDisplayText_def)
next
  case (Some fm)
  with assms
  have same: "map (extractor_output h t fm) (list st) = map (extractor_output h t' fm) (list st)"
    by (intro map_cong refl extractor_output_steady) simp_all
  show ?thesis
    unfolding Some calcDisplayText_def by (simp only: option.case same)
qed

lemma updateFileDisplay_steady:
  assumes "dates_steady h (settings s) (frontmatter_of s (path f))"
  shows "updateFileDisplay h t f s = updateFileDisplay h t' f s"
proof -
  have "calcDisplayText h t (settings s)
          (case metadataCache s (path f) of None \<Rightarrow> None | Some c \<Rightarrow> frontmatter c) =
        calcDisplayText h t' (settings s)
          (case metadataCache s (path f) of None \<Rightarrow> None | Some c \<Rightarrow> frontmatter c)"
    using assms calcDisplayText_steady [of h "settings s" "frontmatter_of s (path f)" t t']
    by (simp add: frontmatter_of_def)
  then show ?thesis
    unfolding updateFileDisplay_def by (simp cong: option.case_cong)
qed

lemma for_in_fileItems_steady:
  assumes "\<forall>p \<in> set (files_of items). dates_steady h (settings s) (frontmatter_of s p)"
    and "same_inputs s u"
  shows "for_in_fileItems h t items u = for_in_fileItems h t' items u"
  using assms
proof (induction items arbitrary: u)
  case Nil
  show ?case by simp
next
  case (Cons p rest)
  from Cons.prems(1)
  have rest: "\<forall>p \<in> set (files_of rest). dates_steady h (settings s) (frontmatter_of s p)"
    by (simp add: files_of_def)
  show ?case
  proof (cases "file' (snd p)")
    case (TFolder x)
    with Cons.IH [OF rest Cons.prems(2)] show ?thesis by simp
  next
    case (TFile x)
    with Cons.prems(1) have "dates_steady h (settings s) (frontmatter_of s x)"
      by (simp add: files_of_def)
    with Cons.prems(2) have "dates_steady h (settings u) (frontmatter_of u (path (TFile x)))"
      by (simp add: same_inputs_def frontmatter_of_def)
    then have one: "updateFileDisplay h t (TFile x) u = updateFileDisplay h t' (TFile x) u"
      by (rule updateFileDisplay_steady)
    obtain r u' where step: "updateFileDisplay h t' (TFile x) u = (r, u')"
      by (cases "updateFileDisplay h t' (TFile x) u")
    from Cons.prems(2) have "same_inputs s (snd (updateFileDisplay h t' (TFile x) u))"
      by (rule same_inputs_after_display)
    with step have "same_inputs s u'" by simp
    from Cons.IH [OF rest this] TFile one step show ?thesis
      by (simp split: option.splits)
  qed
qed

lemma updateFileExplorer_steady:
  assumes "\<forall>p \<in> set (refreshed_paths s). dates_steady h (settings s) (frontmatter_of s p)"
    and "same_inputs s u"
  shows "updateFileExplorer h t u = updateFileExplorer h t' u"
proof (cases "fileExplorer s")
  case None
  with assms(2) show ?thesis by (simp add: updateFileExplorer_def same_inputs_def)
next
  case fe: (Some fe)
  show ?thesis
  proof (cases "fileItems fe")
    case None
    with fe assms(2) show ?thesis by (simp add: updateFileExplorer_def same_inputs_def)
  next
    case (Some items)
    with fe assms(1)
    have "\<forall>p \<in> set (files_of items). dates_steady h (settings s) (frontmatter_of s p)"
      by (simp add: refreshed_paths_def)
    moreover from assms(2) have "same_inputs s (entered u)" by (rule same_inputs_entered)
    ultimately have "for_in_fileItems h t items (entered u) = for_in_fileItems h t' items (entered u)"
      by (rule for_in_fileItems_steady)
    with fe Some assms(2) show ?thesis
      by (simp add: updateFileExplorer_def same_inputs_def entered_def)
  qed
qed

text \<open>
  Claim C6, as the code has it. \<open>updateFileExplorer\<close> is idempotent when the dates are
  steady: if, for every file that the refresh goes through, the answer of \<open>moment\<close> to
  each truthy value that a \<open>Date\<close> extractor reads does not depend on the time of the
  call, then a second refresh, at any later time, on the state that the first one left
  (the settings and the metadata are the same) ends the same way, leaves every
  attribute slot with the label it held after the first refresh, and repeats the writes
  of the first refresh.
\<close>

theorem updateFileExplorer_idempotent_when_steady:
  assumes "\<forall>p \<in> set (refreshed_paths s). dates_steady h (settings s) (frontmatter_of s p)"
  shows "fst (updateFileExplorer h t' (snd (updateFileExplorer h t s))) =
           fst (updateFileExplorer h t s) \<and>
         attributes (snd (updateFileExplorer h t' (snd (updateFileExplorer h t s)))) =
           attributes (snd (updateFileExplorer h t s)) \<and>
         effects (snd (updateFileExplorer h t' (snd (updateFileExplorer h t s)))) =
           effects (snd (updateFileExplorer h t s)) @
           drop (length (effects s)) (effects (snd (updateFileExplorer h t s)))"
proof -
  have "same_inputs s (snd (updateFileExplorer h t s))"
    by (rule same_inputs_after_refresh)
  with assms
  have "updateFileExplorer h t' (snd (updateFileExplorer h t s)) =
        updateFileExplorer h t (snd (updateFileExplorer h t s))"
    by (rule updateFileExplorer_steady)
  with updateFileExplorer_same_time [of h t s] show ?thesis by simp
qed

lemmas sync_simps =
  updateFileExplorer_def updateFileDisplay_def setAttribute_def example_plugin_def
  example_host_def example_moment_def

theorem updateFileExplorer_idempotent_when_steady_witness:
  "fst (updateFileExplorer example_host 2000
          (snd (updateFileExplorer example_host 1000 (dated_plugin ''YYYY'' (JStr ''2020-03-01''))))) = None \<and>
   attributes (snd (updateFileExplorer example_host 2000
          (snd (updateFileExplorer example_host 1000 (dated_plugin ''YYYY'' (JStr ''2020-03-01''))))))
     (1, ''data-erika-value'') = Some ''2020'' \<and>
   effects (snd (updateFileExplorer example_host 2000
          (snd (updateFileExplorer example_host 1000 (dated_plugin ''YYYY'' (JStr ''2020-03-01'')))))) =
     [UpdateFileExplorerCalled, SetAttribute 1 ''data-erika-value'' ''2020'',
      UpdateFileExplorerCalled, SetAttribute 1 ''data-erika-value'' ''2020'']"
proof -
  let ?s = "dated_plugin ''YYYY'' (JStr ''2020-03-01'')"
  have steady: "\<forall>p \<in> set (refreshed_paths ?s).
      dates_steady example_host (settings ?s) (frontmatter_of ?s p)"
    by (simp add: refreshed_paths_def files_of_def dates_steady_def frontmatter_of_def
        dated_plugin_def example_plugin_def example_host_def example_moment_def)
  have first: "updateFileExplorer example_host 1000 ?s =
      (None, setAttribute 1 ''data-erika-value'' ''2020'' (entered ?s))"
    by (simp add: sync_simps dated_plugin_def entered_def calc_simps)
  note again = updateFileExplorer_idempotent_when_steady
    [OF steady, of 2000 1000, unfolded first fst_conv snd_conv]
  show ?thesis
    unfolding first snd_conv using again
    by (simp add: setAttribute_def entered_def dated_plugin_def example_plugin_def)
qed

text \<open>
  The claim as stated fails: \<open>calcDisplayText\<close> hands every truthy value to \<open>moment\<close>,
  which reads an empty array as the current time. With a \<open>Date\<close> extractor in the format
  \<open>x\<close> and the frontmatter \<open>{d: []}\<close>, a refresh at the time 1000 writes the label
  \<open>1000\<close>, and a second refresh at the time 2000, with the same settings and metadata,
  replaces it by \<open>2000\<close>.
\<close>

theorem updateFileExplorer_not_idempotent:
  "attributes (snd (updateFileExplorer example_host 1000 (dated_plugin ''x'' (JArr []))))
     (1, ''data-erika-value'') = Some ''1000'' \<and>
   attributes (snd (updateFileExplorer example_host 2000
          (snd (updateFileExplorer example_host 1000 (dated_plugin ''x'' (JArr []))))))
     (1, ''data-erika-value'') = Some ''2000''"
  by (simp add: sync_simps dated_plugin_def calc_simps decimal.simps digit_def)

text \<open>
  Claim C2, as the code has it. \<open>saveAndUpdateDisplay\<close> refreshes first and persists
  afterwards: it ends as \<open>updateFileExplorer\<close> ends and leaves the attributes that
  \<open>updateFileExplorer\<close> leaves; its effects are those of \<open>updateFileExplorer\<close>, all the
  label writes, followed by the one \<open>saveData\<close> of the settings when
  \<open>updateFileExplorer\<close> did not throw, and by nothing when it threw.
\<close>

theorem saveAndUpdateDisplay_refreshes_then_saves:
  "\<exists>ws. effects (snd (updateFileExplorer h now s)) =
           effects s @ UpdateFileExplorerCalled # map write_event ws \<and>
        fst (saveAndUpdateDisplay h now s) = fst (updateFileExplorer h now s) \<and>
        attributes (snd (saveAndUpdateDisplay h now s)) =
           attributes (snd (updateFileExplorer h now s)) \<and>
        effects (snd (saveAndUpdateDisplay h now s)) =
           effects s @ UpdateFileExplorerCalled # map write_event ws @
           (if fst (updateFileExplorer h now s) = None then [SaveData (settings s)] else [])"
proof -
  obtain r ws
    where run: "\<And>t. same_inputs s t \<Longrightarrow> updateFileExplorer h now t = (r, written ws (entered t))"
    using updateFileExplorer_shape [where s = s and h = h and now = now] by blast
  have first: "updateFileExplorer h now s = (r, written ws (entered s))"
    by (rule run) (rule same_inputs_refl)
  show ?thesis
  proof (cases r)
    case None
    with first show ?thesis
      by (intro exI [of _ ws])
         (simp add: saveAndUpdateDisplay_def saveData_def written_def entered_def)
  next
    case (Some e)
    with first show ?thesis
      by (intro exI [of _ ws])
         (simp add: saveAndUpdateDisplay_def saveData_def written_def entered_def)
  qed
qed

text \<open>
  The claim as stated fails on the example: the label of the note is written before the
  settings are saved.
\<close>

theorem saveAndUpdateDisplay_writes_label_before_saving:
  "effects (snd (saveAndUpdateDisplay example_host 0 example_plugin)) =
     [UpdateFileExplorerCalled,
      SetAttribute 1 ''data-erika-value'' ''Alpha'',
      SaveData (settings example_plugin)]"
  by (simp add: saveAndUpdateDisplay_def saveData_def sync_simps calc_simps)

text \<open>
  On a note whose title does not convert the refresh throws, and nothing is saved.
\<close>

lemma saveAndUpdateDisplay_skips_save_after_throw:
  "saveAndUpdateDisplay example_host 0
     (example_plugin\<lparr>metadataCache := [''notes/a.md'' \<mapsto> unconvertible_title]\<rparr>) =
   updateFileExplorer example_host 0
     (example_plugin\<lparr>metadataCache := [''notes/a.md'' \<mapsto> unconvertible_title]\<rparr>)"
  "effects (snd (saveAndUpdateDisplay example_host 0
     (example_plugin\<lparr>metadataCache := [''notes/a.md'' \<mapsto> unconvertible_title]\<rparr>))) =
   [UpdateFileExplorerCalled]"
  by (simp_all add: saveAndUpdateDisplay_def saveData_def sync_simps unconvertible_title_def
      calc_simps)

lemma updateFileDisplay_unacquired:
  "fileExplorer s = None \<Longrightarrow> updateFileDisplay h now f s = (None, s)"
  by (simp add: updateFileDisplay_def)

lemma updateFileDisplay_tracked:
  assumes "fileExplorer s = Some fe" and "fileItems fe = Some items"
    and "map_of items (path f) = Some item"
    and "calcDisplayText h now (settings s)
           (case metadataCache s (path f) of None \<Rightarrow> None | Some c \<Rightarrow> frontmatter c) = Inr label"
  shows "updateFileDisplay h now f s =
         (None, setAttribute (selfEl item) ''data-erika-value'' label s)"
  using assms by (simp add: updateFileDisplay_def)

text \<open>
  Claim C1, evaluated on the code. The plugin has acquired the file explorer, which
  tracks \<open>notes/a.md\<close> but not \<open>notes/b.md\<close>. \<open>updateFileDisplay\<close> for
  \<open>notes/b.md\<close> throws a \<open>TypeError\<close> (the destructuring of \<open>undefined\<close>) instead of
  returning silently; it writes nothing.
\<close>

theorem updateFileDisplay_untracked_throws:
  "map_of [(''notes'', \<lparr>file' = TFolder ''notes'', selfEl = 0\<rparr>),
           (''notes/a.md'', \<lparr>file' = TFile ''notes/a.md'', selfEl = 1\<rparr>)] ''notes/b.md'' = None \<and>
   fst (updateFileDisplay h now (TFile ''notes/b.md'') example_plugin) = Some TypeError \<and>
   effects (snd (updateFileDisplay h now (TFile ''notes/b.md'') example_plugin)) = []"
  by (simp add: updateFileDisplay_def example_plugin_def Object_prototype_def)

lemma getFileExplorerLeaf_error:
  "getFileExplorerLeaf leaves = Inl e \<Longrightarrow> e = Error ''Could not find file explorer leaf''"
  by (auto simp: getFileExplorerLeaf_def split: option.splits)

lemma found_leaf_has_fileItems:
  assumes "fold (\<lambda>leaf foundLeaf.
                   if foundLeaf \<noteq> None then foundLeaf
                   else (case view leaf of
                           None \<Rightarrow> None
                         | Some v \<Rightarrow> (case fileItems v of None \<Rightarrow> None | Some items \<Rightarrow> Some leaf)))
                leaves acc = Some leaf"
  shows "acc = Some leaf \<or> (\<exists>v items. view leaf = Some v \<and> fileItems v = Some items)"
  using assms
proof (induction leaves arbitrary: acc)
  case Nil
  then show ?case by simp
next
  case (Cons l leaves)
  let ?callback = "\<lambda>leaf foundLeaf.
      if foundLeaf \<noteq> None then foundLeaf
      else (case view leaf of
              None \<Rightarrow> None
            | Some v \<Rightarrow> (case fileItems v of None \<Rightarrow> None | Some items \<Rightarrow> Some leaf))"
  from Cons.prems have "fold ?callback leaves (?callback l acc) = Some leaf"
    by (simp only: fold.simps o_apply)
  from Cons.IH [OF this] show ?case
    by (auto split: if_splits option.splits)
qed

lemma getFileExplorerLeaf_acquired:
  "getFileExplorerLeaf leaves = Inr leaf \<Longrightarrow> \<exists>v items. view leaf = Some v \<and> fileItems v = Some items"
  using found_leaf_has_fileItems [of leaves None leaf]
  by (auto simp: getFileExplorerLeaf_def split: option.splits)

lemma init_failed_runs:
  assumes "\<forall>run \<in> set fails. \<exists>e. getFileExplorerLeaf (snd run) = Inl e"
  shows "init h (fails @ rest) s =
         init h rest
           (s\<lparr>effects := effects s @
                concat (replicate (length fails)
                  [ConsoleError (Error ''Could not find file explorer leaf''), SetTimeout 1000])\<rparr>)"
  using assms
proof (induction fails arbitrary: s)
  case Nil
  show ?case by simp
next
  case (Cons run fails)
  from Cons.prems obtain e where "getFileExplorerLeaf (snd run) = Inl e" by auto
  with getFileExplorerLeaf_error [of "snd run" e]
  have fail: "getFileExplorerLeaf (snd run) = Inl (Error ''Could not find file explorer leaf'')"
    by simp
  from Cons.prems have "\<forall>run \<in> set fails. \<exists>e. getFileExplorerLeaf (snd run) = Inl e" by simp
  note IH = Cons.IH [OF this]
  show ?case
    by (simp add: init_try_def fail IH)
qed

text \<open>
  Claim C7, as the code has it. If \<open>getFileExplorerLeaf\<close> fails on each of the first
  \<open>N\<close> runs and succeeds on the next one, and the refresh that follows does not throw,
  then \<open>init\<close> ends with the file explorer acquired; it has logged the error and set a
  timer of 1000 ms once per failed run, and has entered \<open>updateFileExplorer\<close> once,
  after the last retry. Whatever the workspace holds later is not looked at.
\<close>

theorem init_acquires_and_refreshes_once:
  assumes "\<forall>run \<in> set fails. \<exists>e. getFileExplorerLeaf (snd run) = Inl e"
    and "getFileExplorerLeaf (snd good) = Inr leaf"
    and "fst (updateFileExplorer h (fst good) (s\<lparr>fileExplorer := view leaf\<rparr>)) = None"
  shows "fst (init h (fails @ good # later) s) = Done \<and>
         fileExplorer (snd (init h (fails @ good # later) s)) = view leaf \<and>
         view leaf \<noteq> None \<and>
         (\<exists>ws. effects (snd (init h (fails @ good # later) s)) =
            effects s @
            concat (replicate (length fails)
              [ConsoleError (Error ''Could not find file explorer leaf''), SetTimeout 1000]) @
            UpdateFileExplorerCalled # map write_event ws)"
proof -
  let ?retries = "concat (replicate (length fails)
      [ConsoleError (Error ''Could not find file explorer leaf''), SetTimeout 1000])"
  let ?s1 = "s\<lparr>effects := effects s @ ?retries\<rparr>"
  let ?acq = "s\<lparr>fileExplorer := view leaf\<rparr>"
  let ?acq1 = "?s1\<lparr>fileExplorer := view leaf\<rparr>"
  obtain r ws
    where run: "\<And>t. same_inputs ?acq t \<Longrightarrow>
                  updateFileExplorer h (fst good) t = (r, written ws (entered t))"
    using updateFileExplorer_shape [where s = ?acq and h = h and now = "fst good"] by blast
  have "updateFileExplorer h (fst good) ?acq = (r, written ws (entered ?acq))"
    by (rule run) (rule same_inputs_refl)
  with assms(3) have r: "r = None" by simp
  have "same_inputs ?acq ?acq1" by (simp add: same_inputs_def)
  then have refresh: "updateFileExplorer h (fst good) ?acq1 = (None, written ws (entered ?acq1))"
    using run r by simp
  have "init h (fails @ good # later) s = init h (good # later) ?s1"
    using assms(1) by (rule init_failed_runs)
  also have "\<dots> = (Done, written ws (entered ?acq1))"
    using assms(2) refresh by (simp add: init_try_def)
  finally have result: "init h (fails @ good # later) s = (Done, written ws (entered ?acq1))" .
  from getFileExplorerLeaf_acquired [OF assms(2)] have "view leaf \<noteq> None" by auto
  with result show ?thesis
    by (auto simp: written_def entered_def)
qed

theorem init_acquires_and_refreshes_once_witness:
  "getFileExplorerLeaf example_leaves = Inr \<lparr>view = fileExplorer example_plugin\<rparr> \<and>
   fst (init example_host [(0, []), (1000, [\<lparr>view = None\<rparr>]), (2000, example_leaves), (3000, [])]
          (example_plugin\<lparr>fileExplorer := None\<rparr>)) = Done \<and>
   fileExplorer (snd (init example_host
          [(0, []), (1000, [\<lparr>view = None\<rparr>]), (2000, example_leaves), (3000, [])]
          (example_plugin\<lparr>fileExplorer := None\<rparr>))) = fileExplorer example_plugin \<and>
   effects (snd (init example_host
          [(0, []), (1000, [\<lparr>view = None\<rparr>]), (2000, example_leaves), (3000, [])]
          (example_plugin\<lparr>fileExplorer := None\<rparr>))) =
     [ConsoleError (Error ''Could not find file explorer leaf''), SetTimeout 1000,
      ConsoleError (Error ''Could not find file explorer leaf''), SetTimeout 1000,
      UpdateFileExplorerCalled,
      SetAttribute 1 ''data-erika-value'' ''Alpha'']"
  using init_acquires_and_refreshes_once
    [where fails = "[(0, []), (1000, [\<lparr>view = None\<rparr>])]" and good = "(2000, example_leaves)"
       and leaf = "\<lparr>view = fileExplorer example_plugin\<rparr>" and later = "[(3000, [])]"
       and h = example_host and s = "example_plugin\<lparr>fileExplorer := None\<rparr>"]
  by (simp add: init_try_def getFileExplorerLeaf_def example_leaves_def sync_simps calc_simps)

text \<open>
  The claim as stated fails when the refresh throws: the \<open>catch\<close> block of \<open>init\<close> also
  catches what \<open>updateFileExplorer\<close> throws. Here the first acquisition succeeds
  (\<open>N = 0\<close>), the title of the note is not convertible, and \<open>init\<close> sets the timer and
  refreshes a second time on the next run, and is still not done.
\<close>

theorem init_refreshes_again_after_throw:
  "getFileExplorerLeaf example_leaves = Inr \<lparr>view = fileExplorer example_plugin\<rparr> \<and>
   fst (init example_host [(0, example_leaves), (1000, example_leaves)]
          (example_plugin\<lparr>fileExplorer := None,
                           metadataCache := [''notes/a.md'' \<mapsto> unconvertible_title]\<rparr>)) = Pending \<and>
   effects (snd (init example_host [(0, example_leaves), (1000, example_leaves)]
          (example_plugin\<lparr>fileExplorer := None,
                           metadataCache := [''notes/a.md'' \<mapsto> unconvertible_title]\<rparr>))) =
     [UpdateFileExplorerCalled, ConsoleError TypeError, SetTimeout 1000,
      UpdateFileExplorerCalled, ConsoleError TypeError, SetTimeout 1000]"
  by (simp add: init_try_def getFileExplorerLeaf_def example_leaves_def sync_simps
      unconvertible_title_def calc_simps)

end
